theory Spec2Isabelle
  imports Main "HOL-Library.Sublist"
begin

section \<open>Python strings\<close>

text \<open>
  A Python \<open>str\<close> is a sequence of Unicode code points, so it is modelled as a list of
  code points (natural numbers); \<open>lit\<close> turns an ASCII literal into such a list.  The
  emoji of the source are written by their code points.
\<close>

type_synonym pystr = "nat list"

definition lit :: "string \<Rightarrow> pystr" where
  "lit s = map of_char s"

text \<open>
  \<open>str.isspace\<close> on one code point, which is what \<open>str.strip()\<close> without an argument
  tests: the ASCII white space 0x09-0x0D, 0x1C-0x20 and the Unicode white space
  U+0085, U+00A0, U+1680, U+2000-U+200A, U+2028, U+2029, U+202F, U+205F, U+3000.
\<close>

definition isspace :: "nat \<Rightarrow> bool" where
  "isspace c =
     ((9 \<le> c \<and> c \<le> 13) \<or> (28 \<le> c \<and> c \<le> 32) \<or> c = 133 \<or> c = 160 \<or> c = 5760 \<or>
      (8192 \<le> c \<and> c \<le> 8202) \<or> c = 8232 \<or> c = 8233 \<or> c = 8239 \<or> c = 8287 \<or>
      c = 12288)"

definition lstrip :: "pystr \<Rightarrow> pystr" where
  "lstrip s = dropWhile isspace s"

definition rstrip :: "pystr \<Rightarrow> pystr" where
  "rstrip s = rev (dropWhile isspace (rev s))"

definition strip :: "pystr \<Rightarrow> pystr" where
  "strip s = rstrip (lstrip s)"

text \<open>
  \<open>s.split(sep)\<close> for a separator of one code point: the empty string gives \<open>['']\<close>, and
  every occurrence of the separator starts a new (possibly empty) segment.
\<close>

fun split :: "nat \<Rightarrow> pystr \<Rightarrow> pystr list" where
  "split sep [] = [[]]"
| "split sep (c # cs) =
     (if c = sep then [] # split sep cs
      else (c # hd (split sep cs)) # tl (split sep cs))"

text \<open>\<open>sep.join(xs)\<close>.\<close>

fun join :: "pystr \<Rightarrow> pystr list \<Rightarrow> pystr" where
  "join sep [] = []"
| "join sep [x] = x"
| "join sep (x # y # ys) = x @ sep @ join sep (y # ys)"

section \<open>The chat platform and the spreadsheet service\<close>

datatype exn = FileNotFoundError | OSError | TelegramError | HttpError

datatype outcome = Returned | Raised exn

datatype button = InlineKeyboardButton (label: pystr) (callback_data: pystr)

datatype markup = InlineKeyboardMarkup "button list list"

datatype media = InputMediaPhoto (media: pystr) (caption: "pystr option")

text \<open>
  The calls the handlers make on the chat platform: \<open>query.answer()\<close>,
  \<open>message.reply_text(text, reply_markup)\<close>, \<open>message.reply_photo(photo, caption)\<close> (the
  photo given by its file name) and \<open>message.reply_media_group(media)\<close>.
\<close>

datatype call =
    Answer
  | ReplyText pystr "markup option"
  | ReplyPhoto pystr pystr
  | ReplyMediaGroup "media list"

type_synonym row = "pystr list"

text \<open>
  Everything outside the program.  \<open>execute\<close> is the outcome of the one spreadsheet read
  \<open>sheet.values().get(...).execute()\<close>: an exception, or the response dictionary, of
  which only the optional key \<open>'values'\<close> is read.  \<open>open_welcome\<close> is the outcome of
  \<open>open('welcome_image.jpg', 'rb')\<close>.  \<open>chat\<close> tells, for the calls made so far and the
  call being made, whether the chat platform raises.
\<close>

record world =
  execute :: "exn + row list option"
  open_welcome :: "exn option"
  chat :: "call list \<Rightarrow> call \<Rightarrow> exn option"

text \<open>
  A handler is run on the list of calls made so far and returns how it ended together
  with the extended list.  A call that raises is recorded too.
\<close>

type_synonym handler = "call list \<Rightarrow> outcome \<times> call list"

definition api :: "world \<Rightarrow> call \<Rightarrow> handler" where
  "api w c tr =
     (case chat w tr c of None \<Rightarrow> (Returned, tr @ [c]) | Some e \<Rightarrow> (Raised e, tr @ [c]))"

definition skip :: handler where
  "skip tr = (Returned, tr)"

definition raise :: "exn \<Rightarrow> handler" where
  "raise e tr = (Raised e, tr)"

definition seq :: "handler \<Rightarrow> handler \<Rightarrow> handler" where
  "seq m k tr = (case m tr of (Returned, tr') \<Rightarrow> k tr' | (Raised e, tr') \<Rightarrow> (Raised e, tr'))"

definition try_except :: "handler \<Rightarrow> (exn \<Rightarrow> bool) \<Rightarrow> handler \<Rightarrow> handler" where
  "try_except body catches except tr =
     (case body tr of
        (Returned, tr') \<Rightarrow> (Returned, tr')
      | (Raised e, tr') \<Rightarrow> if catches e then except tr' else (Raised e, tr'))"

definition answer :: "world \<Rightarrow> handler" where
  "answer w = api w Answer"

definition reply_text :: "world \<Rightarrow> pystr \<Rightarrow> markup option \<Rightarrow> handler" where
  "reply_text w text reply_markup = api w (ReplyText text reply_markup)"

definition reply_photo :: "world \<Rightarrow> pystr \<Rightarrow> pystr \<Rightarrow> handler" where
  "reply_photo w photo cap = api w (ReplyPhoto photo cap)"

definition reply_media_group :: "world \<Rightarrow> media list \<Rightarrow> handler" where
  "reply_media_group w ms = api w (ReplyMediaGroup ms)"

section \<open>The handlers of \<open>property_bot.py\<close>\<close>

definition WHATSAPP_NUMBER :: pystr where
  "WHATSAPP_NUMBER = lit ''+60175773070''"

definition whatsapp_link :: pystr where
  "whatsapp_link = lit ''https://wa.me/'' @ WHATSAPP_NUMBER"

definition get_main_menu_keyboard :: markup where
  "get_main_menu_keyboard = InlineKeyboardMarkup
     [[InlineKeyboardButton (lit ''Property Agent Profile'') (lit ''profile'')],
      [InlineKeyboardButton (lit ''List of Properties'') (lit ''properties'')],
      [InlineKeyboardButton (lit ''Link to WhatsApp'') (lit ''whatsapp'')]]"

definition welcome_text :: pystr where
  "welcome_text = lit ''Welcome to Property Azizi Bot! How can I assist you today?''"

definition show_main_menu :: "world \<Rightarrow> handler" where
  "show_main_menu w =
     reply_text w (lit ''Please choose an option:'') (Some get_main_menu_keyboard)"

definition start :: "world \<Rightarrow> handler" where
  "start w =
     seq (try_except
            (case open_welcome w of
               Some e \<Rightarrow> raise e
             | None \<Rightarrow> reply_photo w (lit ''welcome_image.jpg'') welcome_text)
            (\<lambda>e. e = FileNotFoundError)
            (reply_text w welcome_text None))
         (show_main_menu w)"

definition menu_command :: "world \<Rightarrow> handler" where
  "menu_command w = show_main_menu w"

text \<open>
  The f-string of lines 101-107, read only for rows of at least 6 fields.  The labels
  start with U+1F4B0, U+1F4CD, U+1F4D0, U+1F6CF U+FE0F and U+2139 U+FE0F.
\<close>

definition property_info :: "row \<Rightarrow> pystr" where
  "property_info row =
     [128176] @ lit '' Price: '' @ row ! 0 @ [10] @
     [128205] @ lit '' Location: '' @ row ! 1 @ [10] @
     [128208] @ lit '' Size: '' @ row ! 2 @ [10] @
     [128719, 65039] @ lit '' Bedrooms: '' @ row ! 3 @ [10] @
     [8505, 65039] @ lit '' Details: '' @ row ! 4"

definition image_urls :: "row \<Rightarrow> pystr list" where
  "image_urls row = map strip (split 44 (row ! 5))"

definition media_group :: "row \<Rightarrow> media list" where
  "media_group row =
     (map (\<lambda>url. InputMediaPhoto url None) (image_urls row))
       [0 := InputMediaPhoto (image_urls row ! 0) (Some (property_info row))]"

definition fallback_text :: "row \<Rightarrow> pystr" where
  "fallback_text row =
     property_info row @ [10, 10] @ lit ''Images: '' @ join (lit '', '') (image_urls row)"

text \<open>The body of the loop over the rows (lines 100-122).\<close>

definition list_properties_row :: "world \<Rightarrow> row \<Rightarrow> handler" where
  "list_properties_row w row =
     (if 6 \<le> length row then
        (if image_urls row \<noteq> [] then
           try_except (reply_media_group w (media_group row))
             (\<lambda>e. True)
             (reply_text w (fallback_text row) None)
         else reply_text w (property_info row) None)
      else skip)"

fun list_properties_rows :: "world \<Rightarrow> row list \<Rightarrow> handler" where
  "list_properties_rows w [] = skip"
| "list_properties_rows w (row # rows) =
     seq (list_properties_row w row) (list_properties_rows w rows)"

definition closing_text :: pystr where
  "closing_text =
     lit ''These are all the available properties. Contact the agent for more information: ''
     @ whatsapp_link"

definition error_text :: pystr where
  "error_text = lit ''An error occurred while fetching properties. Please try again later.''"

definition list_properties :: "world \<Rightarrow> handler" where
  "list_properties w =
     try_except
       (case execute w of
          Inl e \<Rightarrow> raise e
        | Inr result \<Rightarrow>
            (let values = (case result of None \<Rightarrow> [] | Some v \<Rightarrow> v) in
             if values = [] then reply_text w (lit ''No properties found.'') None
             else seq (list_properties_rows w values) (reply_text w closing_text None)))
       (\<lambda>e. True)
       (reply_text w error_text None)"

definition profile_text :: pystr where
  "profile_text =
     lit ''Here'' @ [39] @ lit ''s the Property Agent Profile: [Add profile details here]''"

definition again_text :: pystr where
  "again_text = lit ''What else would you like to do?''"

definition button_click :: "world \<Rightarrow> pystr option \<Rightarrow> handler" where
  "button_click w data =
     seq (answer w)
       (seq (if data = Some (lit ''profile'') then reply_text w profile_text None
             else if data = Some (lit ''properties'') then list_properties w
             else if data = Some (lit ''whatsapp'') then
               reply_text w (lit ''Click here to chat on WhatsApp: '' @ whatsapp_link) None
             else skip)
            (reply_text w again_text (Some get_main_menu_keyboard)))"

section \<open>Vocabulary of the properties\<close>

text \<open>
  \<open>delivers w\<close>: the chat platform accepts every call other than a media group (the
  acknowledgement, text replies and the welcome photo); whether a media group is accepted
  stays open.  \<open>shows_menu\<close> recognises a message that carries the main menu,
  \<open>is_greeting\<close> one that carries the welcome text, and \<open>calls_made h tr\<close> are the
  calls a handler adds to the calls \<open>tr\<close> made before it.
\<close>

fun is_media_group :: "call \<Rightarrow> bool" where
  "is_media_group (ReplyMediaGroup ms) = True"
| "is_media_group c = False"

definition delivers :: "world \<Rightarrow> bool" where
  "delivers w = (\<forall>tr c. \<not> is_media_group c \<longrightarrow> chat w tr c = None)"

fun shows_menu :: "call \<Rightarrow> bool" where
  "shows_menu (ReplyText t (Some k)) = (k = get_main_menu_keyboard)"
| "shows_menu c = False"

definition calls_made :: "handler \<Rightarrow> call list \<Rightarrow> call list" where
  "calls_made h tr = drop (length tr) (snd (h tr))"

fun is_greeting :: "call \<Rightarrow> bool" where
  "is_greeting (ReplyPhoto p cap) = (cap = welcome_text)"
| "is_greeting (ReplyText t m) = (t = welcome_text)"
| "is_greeting c = False"

definition menu_message :: call where
  "menu_message = ReplyText (lit ''Please choose an option:'') (Some get_main_menu_keyboard)"

definition greeting_message :: "world \<Rightarrow> call" where
  "greeting_message w =
     (if open_welcome w = None then ReplyPhoto (lit ''welcome_image.jpg'') welcome_text
      else ReplyText welcome_text None)"



section \<open>Sample worlds and rows\<close>

definition accept_all :: "call list \<Rightarrow> call \<Rightarrow> exn option" where
  "accept_all tr c = None"

definition reject_media :: "call list \<Rightarrow> call \<Rightarrow> exn option" where
  "reject_media tr c = (if is_media_group c then Some TelegramError else None)"

definition sample_row :: row where
  "sample_row = [lit ''RM 500,000'', lit ''Kuala Lumpur'', lit ''1200 sqft'', lit ''3'',
     lit ''Corner lot'', lit ''a.jpg, b.jpg'']"

definition short_row :: row where
  "short_row = [lit ''RM 1'', lit ''Ipoh'']"

definition calm_world :: world where
  "calm_world = \<lparr>execute = Inr (Some [short_row, sample_row]), open_welcome = None,
     chat = accept_all\<rparr>"

definition flaky_world :: world where
  "flaky_world = \<lparr>execute = Inl HttpError, open_welcome = Some FileNotFoundError,
     chat = reject_media\<rparr>"

definition empty_sheet_world :: world where
  "empty_sheet_world = \<lparr>execute = Inr (Some []), open_welcome = None, chat = accept_all\<rparr>"

definition bare_row :: row where
  "bare_row = [lit ''RM 2'', lit ''Melaka'', lit ''900 sqft'', lit ''2'', lit ''Shoplot'', []]"





section \<open>Strings: splitting, trimming, joining\<close>

lemma split_not_Nil: "split sep s \<noteq> []"
  by (induction s) auto

lemma join_Cons: "ys \<noteq> [] \<Longrightarrow> join sep (x # ys) = x @ sep @ join sep ys"
  by (cases ys) auto

lemma join_split: "join [sep] (split sep s) = s"
proof (induction s)
  case Nil
  show ?case by simp
next
  case (Cons c cs)
  obtain seg segs where sp: "split sep cs = seg # segs"
    using split_not_Nil [of sep cs] by (cases "split sep cs") auto
  show ?case
  proof (cases "c = sep")
    case True
    with Cons show ?thesis by (simp add: join_Cons split_not_Nil)
  next
    case False
    with Cons sp show ?thesis by (cases segs) auto
  qed
qed

lemma split_no_sep: "seg \<in> set (split sep s) \<Longrightarrow> sep \<notin> set seg"
proof (induction s arbitrary: seg)
  case Nil
  then show ?case by simp
next
  case (Cons c cs)
  obtain x xs where sp: "split sep cs = x # xs"
    using split_not_Nil [of sep cs] by (cases "split sep cs") auto
  with Cons show ?case by (auto split: if_splits)
qed

lemma lstrip_decomp: "s = takeWhile isspace s @ lstrip s"
  by (simp add: lstrip_def)

lemma rstrip_decomp: "s = rstrip s @ rev (takeWhile isspace (rev s))"
proof -
  have "rev (dropWhile isspace (rev s)) @ rev (takeWhile isspace (rev s)) =
        rev (takeWhile isspace (rev s) @ dropWhile isspace (rev s))"
    by (simp only: rev_append)
  also have "\<dots> = s"
    by (simp only: takeWhile_dropWhile_id rev_rev_ident)
  finally show ?thesis by (simp add: rstrip_def)
qed

lemma strip_decomp:
  "\<exists>l t. s = l @ strip s @ t \<and> (\<forall>c \<in> set l. isspace c) \<and> (\<forall>c \<in> set t. isspace c)"
proof -
  let ?l = "takeWhile isspace s"
  let ?t = "rev (takeWhile isspace (rev (lstrip s)))"
  have "s = ?l @ lstrip s" by (rule lstrip_decomp)
  also have "lstrip s = strip s @ ?t" unfolding strip_def by (rule rstrip_decomp)
  finally have "s = ?l @ strip s @ ?t" .
  moreover have "\<forall>c \<in> set ?l. isspace c" by (auto dest: set_takeWhileD)
  moreover have "\<forall>c \<in> set ?t. isspace c" by (auto dest: set_takeWhileD)
  ultimately show ?thesis by blast
qed

lemma rstrip_last: "rstrip s \<noteq> [] \<Longrightarrow> \<not> isspace (last (rstrip s))"
  unfolding rstrip_def by (simp add: last_rev hd_dropWhile)

lemma rstrip_hd: "rstrip s \<noteq> [] \<Longrightarrow> hd (rstrip s) = hd s"
  by (metis hd_append2 rstrip_decomp)

lemma lstrip_hd: "lstrip s \<noteq> [] \<Longrightarrow> \<not> isspace (hd (lstrip s))"
  unfolding lstrip_def by (simp add: hd_dropWhile)

lemma strip_ends:
  "strip s \<noteq> [] \<Longrightarrow> \<not> isspace (hd (strip s)) \<and> \<not> isspace (last (strip s))"
proof -
  assume ne: "strip s \<noteq> []"
  then have "lstrip s \<noteq> []" by (auto simp: strip_def rstrip_def)
  with ne show ?thesis
    using rstrip_last [of "lstrip s"] rstrip_hd [of "lstrip s"] lstrip_hd [of s]
    by (simp add: strip_def)
qed

lemma sublist_join: "u \<in> set xs \<Longrightarrow> sublist u (join sep xs)"
proof (induction sep xs rule: join.induct)
  case (1 sep)
  then show ?case by simp
next
  case (2 sep x)
  then show ?case by simp
next
  case (3 sep x y ys)
  show ?case
  proof (cases "u = x")
    case True
    then show ?thesis by simp
  next
    case False
    with 3 have "sublist u (join sep (y # ys))" by simp
    then obtain ps ss where "join sep (y # ys) = ps @ u @ ss" by (auto simp: sublist_def)
    then have "join sep (x # y # ys) = (x @ sep @ ps) @ u @ ss" by simp
    then show ?thesis unfolding sublist_def by blast
  qed
qed

section \<open>Running the handlers\<close>

lemma image_urls_not_Nil: "image_urls row \<noteq> []"
  by (simp add: image_urls_def split_not_Nil)

lemma snd_api: "snd (api w c tr) = tr @ [c]"
  by (simp add: api_def split: option.splits)

lemma seq_skip: "seq skip k = k"
  by (rule ext) (simp add: seq_def skip_def)

lemma rows_append:
  "list_properties_rows w (xs @ ys) = seq (list_properties_rows w xs) (list_properties_rows w ys)"
proof (induction xs)
  case Nil
  show ?case by (simp add: seq_skip)
next
  case (Cons x xs)
  have assoc: "\<And>a b c. seq (seq a b) c = seq a (seq b c)"
    by (rule ext) (simp add: seq_def split: prod.splits outcome.splits)
  from Cons show ?case by (simp add: assoc)
qed

lemma row_made:
  assumes "6 \<le> length row"
  shows "list_properties_row w row tr =
    (case chat w tr (ReplyMediaGroup (media_group row)) of
       None \<Rightarrow> (Returned, tr @ [ReplyMediaGroup (media_group row)])
     | Some e \<Rightarrow> api w (ReplyText (fallback_text row) None)
                   (tr @ [ReplyMediaGroup (media_group row)]))"
  using assms
  by (simp add: list_properties_row_def image_urls_not_Nil try_except_def
      reply_media_group_def reply_text_def api_def split: option.splits)

lemma text_accepted:
  "delivers w \<Longrightarrow> reply_text w t m tr = (Returned, tr @ [ReplyText t m])"
  by (simp add: reply_text_def api_def delivers_def)

lemma calls_made_append: "snd (h tr) = tr @ new \<Longrightarrow> calls_made h tr = new"
  by (simp add: calls_made_def)

lemma caption_hd_media_group: "caption (hd (media_group row)) = Some (property_info row)"
proof -
  obtain u us where "image_urls row = u # us"
    using image_urls_not_Nil [of row] by (cases "image_urls row") auto
  then show ?thesis by (simp add: media_group_def)
qed

lemma media_media_group: "map media (media_group row) = image_urls row"
proof -
  obtain u us where "image_urls row = u # us"
    using image_urls_not_Nil [of row] by (cases "image_urls row") auto
  then show ?thesis by (simp add: media_group_def comp_def)
qed

lemma property_info_sublists:
  "sublist (row ! 0) (property_info row)"
  "sublist (row ! 1) (property_info row)"
  "sublist (row ! 2) (property_info row)"
  "sublist (row ! 3) (property_info row)"
  "sublist (row ! 4) (property_info row)"
proof -
  have "property_info row = ([128176] @ lit '' Price: '') @ row ! 0 @
     ([10] @ [128205] @ lit '' Location: '' @ row ! 1 @ [10] @
     [128208] @ lit '' Size: '' @ row ! 2 @ [10] @
     [128719, 65039] @ lit '' Bedrooms: '' @ row ! 3 @ [10] @
     [8505, 65039] @ lit '' Details: '' @ row ! 4)"
    by (simp add: property_info_def)
  then show "sublist (row ! 0) (property_info row)" unfolding sublist_def by blast
  have "property_info row = ([128176] @ lit '' Price: '' @ row ! 0 @ [10] @
     [128205] @ lit '' Location: '') @ row ! 1 @ ([10] @
     [128208] @ lit '' Size: '' @ row ! 2 @ [10] @
     [128719, 65039] @ lit '' Bedrooms: '' @ row ! 3 @ [10] @
     [8505, 65039] @ lit '' Details: '' @ row ! 4)"
    by (simp add: property_info_def)
  then show "sublist (row ! 1) (property_info row)" unfolding sublist_def by blast
  have "property_info row = ([128176] @ lit '' Price: '' @ row ! 0 @ [10] @
     [128205] @ lit '' Location: '' @ row ! 1 @ [10] @
     [128208] @ lit '' Size: '') @ row ! 2 @ ([10] @
     [128719, 65039] @ lit '' Bedrooms: '' @ row ! 3 @ [10] @
     [8505, 65039] @ lit '' Details: '' @ row ! 4)"
    by (simp add: property_info_def)
  then show "sublist (row ! 2) (property_info row)" unfolding sublist_def by blast
  have "property_info row = ([128176] @ lit '' Price: '' @ row ! 0 @ [10] @
     [128205] @ lit '' Location: '' @ row ! 1 @ [10] @
     [128208] @ lit '' Size: '' @ row ! 2 @ [10] @
     [128719, 65039] @ lit '' Bedrooms: '') @ row ! 3 @ ([10] @
     [8505, 65039] @ lit '' Details: '' @ row ! 4)"
    by (simp add: property_info_def)
  then show "sublist (row ! 3) (property_info row)" unfolding sublist_def by blast
  have "property_info row = ([128176] @ lit '' Price: '' @ row ! 0 @ [10] @
     [128205] @ lit '' Location: '' @ row ! 1 @ [10] @
     [128208] @ lit '' Size: '' @ row ! 2 @ [10] @
     [128719, 65039] @ lit '' Bedrooms: '' @ row ! 3 @ [10] @
     [8505, 65039] @ lit '' Details: '') @ row ! 4 @ []"
    by (simp add: property_info_def)
  then show "sublist (row ! 4) (property_info row)" unfolding sublist_def by blast
qed

lemma snd_row:
  assumes "6 \<le> length row"
  shows "\<exists>rest. snd (list_properties_row w row tr) = tr @ ReplyMediaGroup (media_group row) # rest"
  using assms by (simp add: row_made api_def split: option.splits)

lemma fallback_longer: "fallback_text row \<noteq> property_info row"
  by (simp add: fallback_text_def)

lemma delivers_calm: "delivers calm_world"
  by (simp add: delivers_def calm_world_def accept_all_def)

lemma delivers_flaky: "delivers flaky_world"
  by (simp add: delivers_def flaky_world_def reject_media_def)

lemma start_run:
  assumes "delivers w"
    and "open_welcome w = None \<or> open_welcome w = Some FileNotFoundError"
  shows "start w tr = (Returned, tr @ [greeting_message w, menu_message])"
proof -
  from assms(1) have photo: "\<And>p c t. reply_photo w p c t = (Returned, t @ [ReplyPhoto p c])"
    by (simp add: reply_photo_def api_def delivers_def)
  from assms(2) show ?thesis
  proof
    assume "open_welcome w = None"
    then show ?thesis
      by (simp add: start_def seq_def try_except_def photo show_main_menu_def
          text_accepted [OF assms(1)] greeting_message_def menu_message_def)
  next
    assume "open_welcome w = Some FileNotFoundError"
    then show ?thesis
      by (simp add: start_def seq_def try_except_def raise_def show_main_menu_def
          text_accepted [OF assms(1)] greeting_message_def menu_message_def)
  qed
qed

lemma snd_menu_command: "snd (menu_command w tr) = tr @ [menu_message]"
  by (simp add: menu_command_def show_main_menu_def reply_text_def snd_api menu_message_def)

lemma menu_run: "delivers w \<Longrightarrow> menu_command w tr = (Returned, tr @ [menu_message])"
  by (simp add: menu_command_def show_main_menu_def text_accepted menu_message_def)





















section \<open>The claims\<close>

text \<open>
  C1.  For every row with at least 6 fields the display text is not empty and contains
  the values of the price, location, size, bedrooms and details fields (\<open>row[0]\<close> to
  \<open>row[4]\<close>); it is what the renderer sends, as the caption of the first photo of the
  media group that the row's rendering starts with.
\<close>

theorem display_text_contains_fields:
  assumes "6 \<le> length row"
  shows "property_info row \<noteq> [] \<and>
    sublist (row ! 0) (property_info row) \<and> sublist (row ! 1) (property_info row) \<and>
    sublist (row ! 2) (property_info row) \<and> sublist (row ! 3) (property_info row) \<and>
    sublist (row ! 4) (property_info row) \<and>
    hd (calls_made (list_properties_row w row) tr) = ReplyMediaGroup (media_group row) \<and>
    caption (hd (media_group row)) = Some (property_info row)"
proof -
  have "property_info row \<noteq> []" by (simp add: property_info_def)
  moreover from snd_row [OF assms] obtain rest where
    "snd (list_properties_row w row tr) = tr @ ReplyMediaGroup (media_group row) # rest"
    by blast
  then have "hd (calls_made (list_properties_row w row) tr) = ReplyMediaGroup (media_group row)"
    by (simp add: calls_made_def)
  ultimately show ?thesis
    using property_info_sublists [of row] caption_hd_media_group [of row] by blast
qed

theorem display_text_contains_fields_witness:
  "6 \<le> length sample_row \<and> property_info sample_row \<noteq> [] \<and>
   sublist (lit ''RM 500,000'') (property_info sample_row) \<and>
   sublist (lit ''Kuala Lumpur'') (property_info sample_row) \<and>
   sublist (lit ''1200 sqft'') (property_info sample_row) \<and>
   sublist (lit ''3'') (property_info sample_row) \<and>
   sublist (lit ''Corner lot'') (property_info sample_row) \<and>
   hd (calls_made (list_properties_row calm_world sample_row) []) =
     ReplyMediaGroup (media_group sample_row)"
proof -
  have len: "6 \<le> length sample_row" by (simp add: sample_row_def)
  have nth: "sample_row ! 0 = lit ''RM 500,000''" "sample_row ! 1 = lit ''Kuala Lumpur''"
    "sample_row ! 2 = lit ''1200 sqft''" "sample_row ! 3 = lit ''3''"
    "sample_row ! 4 = lit ''Corner lot''"
    by (simp_all add: sample_row_def)
  from display_text_contains_fields [OF len, of calm_world "[]"] len nth
  show ?thesis by simp
qed

text \<open>
  C2.  A row with fewer than 6 fields is skipped: its turn of the loop makes no call on
  the chat platform and returns, and the loop over a sheet that holds the row anywhere
  behaves as the loop over the sheet without it.
\<close>

theorem short_row_skipped:
  assumes "length row < 6"
  shows "list_properties_row w row tr = (Returned, tr) \<and>
    calls_made (list_properties_row w row) tr = [] \<and>
    list_properties_rows w (before @ row # after) = list_properties_rows w (before @ after)"
proof -
  from assms have sk: "list_properties_row w row = skip"
    by (simp add: list_properties_row_def)
  then have "list_properties_rows w (row # after) = list_properties_rows w after"
    by (simp add: seq_skip)
  then have "list_properties_rows w (before @ row # after) =
      list_properties_rows w (before @ after)"
    by (simp add: rows_append)
  with sk show ?thesis by (simp add: skip_def calls_made_def)
qed

theorem short_row_skipped_witness:
  "length short_row < 6 \<and> list_properties_row calm_world short_row [] = (Returned, []) \<and>
   list_properties_rows calm_world [short_row, sample_row] =
   list_properties_rows calm_world [sample_row]"
proof -
  have len: "length short_row < 6" by (simp add: short_row_def)
  from short_row_skipped [OF len, of calm_world "[]" "[]" "[sample_row]"] len
  show ?thesis by simp
qed

text \<open>
  C3.  The image URLs are the comma-separated segments of \<open>row[5]\<close> (the last field of
  a row of 6 fields), each trimmed: \<open>"a.jpg, b.jpg"\<close> gives \<open>["a.jpg", "b.jpg"]\<close>.  In
  general the segments are the pieces between the commas (joining them with commas
  gives the field back and no segment holds a comma), there are as many URLs as
  segments, and the \<open>i\<close>-th URL is the \<open>i\<close>-th segment without its leading and
  trailing white space: the segment is white space, the URL, white space, and the URL is
  empty or neither starts nor ends with white space.
\<close>

theorem image_urls_split_trimmed:
  "(row ! 5 = lit ''a.jpg, b.jpg'' \<longrightarrow> image_urls row = [lit ''a.jpg'', lit ''b.jpg'']) \<and>
   (length row = 6 \<longrightarrow> row ! 5 = last row) \<and>
   join [44] (split 44 (row ! 5)) = row ! 5 \<and>
   (\<forall>seg \<in> set (split 44 (row ! 5)). 44 \<notin> set seg) \<and>
   length (image_urls row) = length (split 44 (row ! 5)) \<and>
   (\<forall>i < length (image_urls row).
      (\<exists>l t. split 44 (row ! 5) ! i = l @ image_urls row ! i @ t \<and>
         (\<forall>c \<in> set l. isspace c) \<and> (\<forall>c \<in> set t. isspace c)) \<and>
      (image_urls row ! i = [] \<or>
       (\<not> isspace (hd (image_urls row ! i)) \<and> \<not> isspace (last (image_urls row ! i)))))"
proof -
  have ex: "row ! 5 = lit ''a.jpg, b.jpg'' \<longrightarrow> image_urls row = [lit ''a.jpg'', lit ''b.jpg'']"
    by (simp add: image_urls_def lit_def strip_def lstrip_def rstrip_def isspace_def)
  have lastf: "length row = 6 \<longrightarrow> row ! 5 = last row"
  proof
    assume "length row = 6"
    then have "row \<noteq> []" "length row - 1 = 5" by auto
    then show "row ! 5 = last row" by (simp add: last_conv_nth)
  qed
  have len: "length (image_urls row) = length (split 44 (row ! 5))"
    by (simp add: image_urls_def)
  have segs: "\<forall>seg \<in> set (split 44 (row ! 5)). 44 \<notin> set seg"
    using split_no_sep by blast
  have trimmed: "\<forall>i < length (image_urls row).
      (\<exists>l t. split 44 (row ! 5) ! i = l @ image_urls row ! i @ t \<and>
         (\<forall>c \<in> set l. isspace c) \<and> (\<forall>c \<in> set t. isspace c)) \<and>
      (image_urls row ! i = [] \<or>
       (\<not> isspace (hd (image_urls row ! i)) \<and> \<not> isspace (last (image_urls row ! i))))"
  proof (intro allI impI)
    fix i assume "i < length (image_urls row)"
    then have nth: "image_urls row ! i = strip (split 44 (row ! 5) ! i)"
      by (simp add: image_urls_def)
    show "(\<exists>l t. split 44 (row ! 5) ! i = l @ image_urls row ! i @ t \<and>
         (\<forall>c \<in> set l. isspace c) \<and> (\<forall>c \<in> set t. isspace c)) \<and>
      (image_urls row ! i = [] \<or>
       (\<not> isspace (hd (image_urls row ! i)) \<and> \<not> isspace (last (image_urls row ! i))))"
      unfolding nth using strip_decomp [of "split 44 (row ! 5) ! i"]
        strip_ends [of "split 44 (row ! 5) ! i"] by blast
  qed
  from ex lastf len segs trimmed show ?thesis
    using join_split [of 44 "row ! 5"] by blast
qed

theorem image_urls_split_trimmed_witness:
  "sample_row ! 5 = lit ''a.jpg, b.jpg'' \<and> length sample_row = 6 \<and>
   image_urls sample_row = [lit ''a.jpg'', lit ''b.jpg''] \<and>
   sample_row ! 5 = last sample_row \<and>
   join [44] (split 44 (sample_row ! 5)) = sample_row ! 5"
proof -
  have f: "sample_row ! 5 = lit ''a.jpg, b.jpg''" "length sample_row = 6"
    by (simp_all add: sample_row_def)
  from image_urls_split_trimmed [of sample_row] f show ?thesis by blast
qed

text \<open>
  C4.  When the media group of a rendered listing is refused, the listing's turn of the
  loop makes exactly two calls: the refused media group and one fallback text reply.
  The caption of the attempted group is the display text, the photos of the group are
  the listing's image URLs, and the fallback text starts with the same display text and
  contains every image URL.
\<close>

theorem fallback_after_failed_media_group:
  assumes "6 \<le> length row"
    and "chat w tr (ReplyMediaGroup (media_group row)) = Some e"
  shows "calls_made (list_properties_row w row) tr =
      [ReplyMediaGroup (media_group row), ReplyText (fallback_text row) None] \<and>
    caption (hd (media_group row)) = Some (property_info row) \<and>
    map media (media_group row) = image_urls row \<and>
    prefix (property_info row) (fallback_text row) \<and>
    (\<forall>url \<in> set (image_urls row). sublist url (fallback_text row))"
proof -
  from assms have "snd (list_properties_row w row tr) =
      tr @ [ReplyMediaGroup (media_group row), ReplyText (fallback_text row) None]"
    by (simp add: row_made snd_api)
  then have made: "calls_made (list_properties_row w row) tr =
      [ReplyMediaGroup (media_group row), ReplyText (fallback_text row) None]"
    by (rule calls_made_append)
  have pre: "prefix (property_info row) (fallback_text row)"
    by (simp add: fallback_text_def)
  have urls: "\<forall>url \<in> set (image_urls row). sublist url (fallback_text row)"
  proof
    fix url assume "url \<in> set (image_urls row)"
    then have "sublist url (join (lit '', '') (image_urls row))" by (rule sublist_join)
    then obtain ps ss where "join (lit '', '') (image_urls row) = ps @ url @ ss"
      by (auto simp: sublist_def)
    then have "fallback_text row =
        (property_info row @ [10, 10] @ lit ''Images: '' @ ps) @ url @ ss"
      by (simp add: fallback_text_def)
    then show "sublist url (fallback_text row)" unfolding sublist_def by blast
  qed
  from made pre urls show ?thesis
    using caption_hd_media_group [of row] media_media_group [of row] by blast
qed

theorem fallback_after_failed_media_group_witness:
  "6 \<le> length sample_row \<and>
   chat flaky_world [] (ReplyMediaGroup (media_group sample_row)) = Some TelegramError \<and>
   calls_made (list_properties_row flaky_world sample_row) [] =
     [ReplyMediaGroup (media_group sample_row), ReplyText (fallback_text sample_row) None] \<and>
   prefix (property_info sample_row) (fallback_text sample_row) \<and>
   sublist (lit ''a.jpg'') (fallback_text sample_row) \<and>
   sublist (lit ''b.jpg'') (fallback_text sample_row)"
proof -
  have len: "6 \<le> length sample_row" by (simp add: sample_row_def)
  have rej: "chat flaky_world [] (ReplyMediaGroup (media_group sample_row)) = Some TelegramError"
    by (simp add: flaky_world_def reject_media_def)
  have urls: "image_urls sample_row = [lit ''a.jpg'', lit ''b.jpg'']"
    by (simp add: sample_row_def image_urls_def lit_def strip_def lstrip_def rstrip_def
        isspace_def)
  from fallback_after_failed_media_group [OF len rej] len rej urls
  show ?thesis by simp
qed

text \<open>
  C5.  When the spreadsheet read returns no rows (no \<open>'values'\<close> key, or an empty
  list) and the chat platform accepts the reply, the listings handler returns after
  exactly one call, the reply \<open>'No properties found.'\<close>: no listing and no closing
  contact message is sent.
\<close>

theorem no_properties_sole_reply:
  assumes "execute w = Inr None \<or> execute w = Inr (Some [])"
    and "chat w tr (ReplyText (lit ''No properties found.'') None) = None"
  shows "list_properties w tr =
      (Returned, tr @ [ReplyText (lit ''No properties found.'') None]) \<and>
    calls_made (list_properties w) tr = [ReplyText (lit ''No properties found.'') None]"
proof -
  from assms have "list_properties w tr =
      (Returned, tr @ [ReplyText (lit ''No properties found.'') None])"
    by (auto simp: list_properties_def try_except_def reply_text_def api_def)
  then show ?thesis by (simp add: calls_made_def)
qed

theorem no_properties_sole_reply_witness:
  "execute empty_sheet_world = Inr (Some []) \<and>
   chat empty_sheet_world [] (ReplyText (lit ''No properties found.'') None) = None \<and>
   list_properties empty_sheet_world [] =
     (Returned, [ReplyText (lit ''No properties found.'') None])"
proof -
  have e: "execute empty_sheet_world = Inr None \<or> execute empty_sheet_world = Inr (Some [])"
    by (simp add: empty_sheet_world_def)
  have c: "chat empty_sheet_world [] (ReplyText (lit ''No properties found.'') None) = None"
    by (simp add: empty_sheet_world_def accept_all_def)
  from no_properties_sole_reply [OF e c] c show ?thesis by (simp add: empty_sheet_world_def)
qed




text \<open>
  C7, as amended.  On \<open>/start\<close> the handler sends a greeting (the welcome photo with its
  caption, or the same text when the image file is not found) followed by the menu; on
  \<open>/menu\<close> it sends the menu only, and that message is no greeting.
\<close>

theorem start_greets_menu_command_does_not:
  assumes "delivers w"
    and "open_welcome w = None \<or> open_welcome w = Some FileNotFoundError"
  shows "start w tr = (Returned, tr @ [greeting_message w, menu_message]) \<and>
    is_greeting (greeting_message w) \<and> shows_menu menu_message \<and>
    menu_command w tr = (Returned, tr @ [menu_message]) \<and>
    \<not> is_greeting menu_message"
proof -
  have "is_greeting (greeting_message w)" by (simp add: greeting_message_def)
  moreover have "shows_menu menu_message" by (simp add: menu_message_def)
  moreover have "\<not> is_greeting menu_message"
    by (simp add: menu_message_def welcome_text_def lit_def)
  ultimately show ?thesis
    by (simp add: start_run [OF assms] menu_run [OF assms(1)])
qed

theorem start_greets_menu_command_does_not_witness:
  "delivers calm_world \<and> open_welcome calm_world = None \<and>
   start calm_world [] =
     (Returned, [ReplyPhoto (lit ''welcome_image.jpg'') welcome_text, menu_message]) \<and>
   menu_command calm_world [] = (Returned, [menu_message])"
proof -
  have d: "delivers calm_world" by (rule delivers_calm)
  have o: "open_welcome calm_world = None \<or> open_welcome calm_world = Some FileNotFoundError"
    by (simp add: calm_world_def)
  from start_greets_menu_command_does_not [OF d o, of "[]"] d
  show ?thesis by (simp add: greeting_message_def calm_world_def)
qed

text \<open>
  C7 as stated fails: the \<open>/menu\<close> handler makes one call, the menu message, and none
  of its calls carries the welcome text.
\<close>

theorem menu_command_sends_no_greeting:
  "calls_made (menu_command calm_world) [] =
     [ReplyText (lit ''Please choose an option:'') (Some get_main_menu_keyboard)] \<and>
   filter is_greeting (calls_made (menu_command calm_world) []) = []"
  by (simp add: calls_made_def snd_menu_command menu_message_def welcome_text_def lit_def)

text \<open>
  C8.  When the spreadsheet read raises (whatever the exception), the listings handler
  catches it and makes exactly one call, the generic error reply; when the chat platform
  accepts that reply the handler returns normally, and a click on the listings button
  then goes on to show the menu.
\<close>

theorem fetch_failure_caught:
  assumes "execute w = Inl e"
  shows "calls_made (list_properties w) tr = [ReplyText error_text None] \<and>
    (chat w tr (ReplyText error_text None) = None \<longrightarrow>
       list_properties w tr = (Returned, tr @ [ReplyText error_text None])) \<and>
    (delivers w \<longrightarrow>
       button_click w (Some (lit ''properties'')) tr =
         (Returned, tr @ [Answer, ReplyText error_text None,
            ReplyText again_text (Some get_main_menu_keyboard)]))"
proof -
  from assms have lp: "list_properties w = api w (ReplyText error_text None)"
    by (intro ext) (simp add: list_properties_def try_except_def raise_def reply_text_def)
  then have made: "calls_made (list_properties w) tr = [ReplyText error_text None]"
    by (simp add: calls_made_def snd_api)
  have ne: "lit ''properties'' \<noteq> lit ''profile''" by (simp add: lit_def)
  have click: "button_click w (Some (lit ''properties'')) tr =
         (Returned, tr @ [Answer, ReplyText error_text None,
            ReplyText again_text (Some get_main_menu_keyboard)])" if d: "delivers w"
  proof -
    from d have a: "answer w tr = (Returned, tr @ [Answer])"
      by (simp add: answer_def api_def delivers_def)
    from d have l: "list_properties w (tr @ [Answer]) =
        (Returned, (tr @ [Answer]) @ [ReplyText error_text None])"
      unfolding lp by (simp add: api_def delivers_def)
    show ?thesis
      using ne a l by (simp add: button_click_def seq_def text_accepted [OF d])
  qed
  from made click show ?thesis by (simp add: lp api_def)
qed

theorem fetch_failure_caught_witness:
  "execute flaky_world = Inl HttpError \<and> delivers flaky_world \<and>
   calls_made (list_properties flaky_world) [] = [ReplyText error_text None] \<and>
   list_properties flaky_world [] = (Returned, [ReplyText error_text None]) \<and>
   button_click flaky_world (Some (lit ''properties'')) [] =
     (Returned, [Answer, ReplyText error_text None,
        ReplyText again_text (Some get_main_menu_keyboard)])"
proof -
  have e: "execute flaky_world = Inl HttpError" by (simp add: flaky_world_def)
  have c: "chat flaky_world [] (ReplyText error_text None) = None"
    by (simp add: flaky_world_def reject_media_def)
  from fetch_failure_caught [OF e, of "[]"] e c delivers_flaky show ?thesis by simp
qed

text \<open>
  C9.  Splitting never gives an empty list (the empty string gives one empty segment),
  so for a row with at least 6 fields the list of image URLs is not empty, the loop body
  is the media-group attempt with its fallback, its first call is the media group, and
  the text-only reply of the other branch is never sent.
\<close>

theorem unreachable_text_only_branch:
  assumes "6 \<le> length row"
  shows "split 44 (row ! 5) \<noteq> [] \<and> split 44 [] = [[]] \<and> image_urls row \<noteq> [] \<and>
    list_properties_row w row =
      try_except (reply_media_group w (media_group row)) (\<lambda>e. True)
        (reply_text w (fallback_text row) None) \<and>
    hd (calls_made (list_properties_row w row) tr) = ReplyMediaGroup (media_group row) \<and>
    ReplyText (property_info row) None \<notin> set (calls_made (list_properties_row w row) tr)"
proof -
  from assms have body: "list_properties_row w row =
      try_except (reply_media_group w (media_group row)) (\<lambda>e. True)
        (reply_text w (fallback_text row) None)"
    by (simp add: list_properties_row_def image_urls_not_Nil)
  from assms have "snd (list_properties_row w row tr) = tr @ [ReplyMediaGroup (media_group row)]
     \<or> snd (list_properties_row w row tr) =
       tr @ [ReplyMediaGroup (media_group row), ReplyText (fallback_text row) None]"
    by (simp add: row_made snd_api split: option.splits)
  then have "calls_made (list_properties_row w row) tr = [ReplyMediaGroup (media_group row)]
     \<or> calls_made (list_properties_row w row) tr =
       [ReplyMediaGroup (media_group row), ReplyText (fallback_text row) None]"
    by (auto simp: calls_made_def)
  then have "hd (calls_made (list_properties_row w row) tr) = ReplyMediaGroup (media_group row)"
    and "ReplyText (property_info row) None \<notin> set (calls_made (list_properties_row w row) tr)"
    using fallback_longer [of row] by auto
  with body show ?thesis by (simp add: split_not_Nil image_urls_not_Nil)
qed

theorem unreachable_text_only_branch_witness:
  "6 \<le> length bare_row \<and> bare_row ! 5 = [] \<and> image_urls bare_row \<noteq> [] \<and>
   hd (calls_made (list_properties_row calm_world bare_row) []) =
     ReplyMediaGroup (media_group bare_row) \<and>
   ReplyText (property_info bare_row) None \<notin>
     set (calls_made (list_properties_row calm_world bare_row) [])"
proof -
  have len: "6 \<le> length bare_row" and f: "bare_row ! 5 = []"
    by (simp_all add: bare_row_def)
  from unreachable_text_only_branch [OF len, of calm_world "[]"] len f
  show ?thesis by blast
qed

text \<open>
  C10.  A button click whose data is none of \<open>'profile'\<close>, \<open>'properties'\<close> and
  \<open>'whatsapp'\<close> (or is absent) makes, when the chat platform accepts them, exactly two
  calls: the acknowledgement of the callback and one menu message.
\<close>

theorem unknown_button_only_menu:
  assumes "data \<noteq> Some (lit ''profile'')" and "data \<noteq> Some (lit ''properties'')"
    and "data \<noteq> Some (lit ''whatsapp'')"
    and "chat w tr Answer = None"
    and "chat w (tr @ [Answer]) (ReplyText again_text (Some get_main_menu_keyboard)) = None"
  shows "button_click w data tr =
      (Returned, tr @ [Answer, ReplyText again_text (Some get_main_menu_keyboard)]) \<and>
    length (filter shows_menu (calls_made (button_click w data) tr)) = 1"
proof -
  from assms have "button_click w data tr =
      (Returned, tr @ [Answer, ReplyText again_text (Some get_main_menu_keyboard)])"
    by (simp add: button_click_def seq_def answer_def reply_text_def api_def skip_def)
  then show ?thesis by (simp add: calls_made_def)
qed

theorem unknown_button_only_menu_witness:
  "Some (lit ''settings'') \<noteq> Some (lit ''profile'') \<and>
   Some (lit ''settings'') \<noteq> Some (lit ''properties'') \<and>
   Some (lit ''settings'') \<noteq> Some (lit ''whatsapp'') \<and>
   chat calm_world [] Answer = None \<and>
   chat calm_world [Answer] (ReplyText again_text (Some get_main_menu_keyboard)) = None \<and>
   button_click calm_world (Some (lit ''settings'')) [] =
     (Returned, [Answer, ReplyText again_text (Some get_main_menu_keyboard)])"
proof -
  have n: "Some (lit ''settings'') \<noteq> Some (lit ''profile'')"
    "Some (lit ''settings'') \<noteq> Some (lit ''properties'')"
    "Some (lit ''settings'') \<noteq> Some (lit ''whatsapp'')"
    by (simp_all add: lit_def)
  have c: "chat calm_world [] Answer = None"
    "chat calm_world ([] @ [Answer]) (ReplyText again_text (Some get_main_menu_keyboard)) = None"
    by (simp_all add: calm_world_def accept_all_def)
  from unknown_button_only_menu [OF n c] n c show ?thesis by simp
qed

end
